theory Spec2Isabelle
  imports Main "HOL-Library.Word"
begin

unbundle bit_operations_syntax

section \<open>Data\<close>

text \<open>
  A Go \<^verbatim>\<open>string\<close> (paths, messages) is a \<^typ>\<open>string\<close>; a \<^verbatim>\<open>[]byte\<close> is a list
  of 8-bit words. \<^verbatim>\<open>[]byte(s)\<close> converts the one into the other.
\<close>

type_synonym byte = "8 word"

definition bytes :: "string \<Rightarrow> byte list" where
  "bytes s = map of_char s"

text \<open>
  The values of Go's \<^verbatim>\<open>error\<close> interface that this program can hold:
  the result of \<^verbatim>\<open>fmt.Errorf\<close> (without \<^verbatim>\<open>%w\<close>) and of \<^verbatim>\<open>errors.New\<close>, the sentinel errors
  of package \<^verbatim>\<open>io\<close>, and the \<^verbatim>\<open>*fs.PathError\<close> (operation, path, cause) that package
  \<^verbatim>\<open>os\<close> returns. \<open>Error\<close> is the method \<^verbatim>\<open>Error()\<close>, the text that \<^verbatim>\<open>%v\<close> prints.
\<close>

datatype error =
    Errorf string
  | errorString string
  | EOF
  | ErrUnexpectedEOF
  | ErrShortWrite
  | errInvalidWrite
  | PathError string string string

fun Error :: "error \<Rightarrow> string" where
  "Error (Errorf s) = s"
| "Error (errorString s) = s"
| "Error EOF = ''EOF''"
| "Error ErrUnexpectedEOF = ''unexpected EOF''"
| "Error ErrShortWrite = ''short wr''"
| "Error errInvalidWrite = ''invalid wr result''"
| "Error (PathError oper path cause) = oper @ '' '' @ path @ '': '' @ cause"

subsection \<open>Files\<close>

text \<open>
  An open \<^verbatim>\<open>*os.File\<close>, seen as an \<^verbatim>\<open>io.Reader\<close>: the results of its successive
  calls of \<^verbatim>\<open>Read\<close>, each the bytes stored into the buffer and the error returned with
  them. After the last entry the file is at its end: \<^verbatim>\<open>Read\<close> returns \<^verbatim>\<open>0, io.EOF\<close>.
\<close>

type_synonym File = "(byte list \<times> error option) list"

subsection \<open>Writers\<close>

text \<open>
  An \<^verbatim>\<open>io.Writer\<close> is an object with the method
  \<^verbatim>\<open>Write(p []byte) (n int, err error)\<close>, which may change the state of the object.
  Here the state \<open>'w\<close> is explicit: the method takes it and returns the new one.
  A writer may have the method \<^verbatim>\<open>ReadFrom(r io.Reader) (n int64, err error)\<close> as well: it
  is then an \<^verbatim>\<open>io.ReaderFrom\<close>, as \<^verbatim>\<open>os.Stdout\<close> and every other \<^verbatim>\<open>*os.File\<close> is. What
  such a method does with the file it is given, and what it returns, is the writer's own
  matter: for \<^verbatim>\<open>os.Stdout\<close> it is the system's \<^verbatim>\<open>copy_file_range\<close> or \<^verbatim>\<open>splice\<close> where they
  apply, and their errors.
\<close>

type_synonym 'w WriteMethod = "'w \<Rightarrow> byte list \<Rightarrow> int \<times> error option \<times> 'w"

type_synonym 'w ReadFromMethod = "'w \<Rightarrow> File \<Rightarrow> int \<times> error option \<times> 'w"

record 'w Writer =
  Write :: "'w WriteMethod"
  ReadFrom :: "'w ReadFromMethod option"

text \<open>A writer with no method but \<^verbatim>\<open>Write\<close>, as the writers of the tests are.\<close>

definition writer :: "'w WriteMethod \<Rightarrow> 'w Writer" where
  "writer wr = \<lparr>Write = wr, ReadFrom = None\<rparr>"

text \<open>
  The file system is a parameter of the program. For a path as the program passes it to
  the system calls, \<open>lstat\<close> gives the mode of the entry itself (as an \<^verbatim>\<open>os.FileMode\<close>,
  a \<^verbatim>\<open>uint32\<close>), \<open>readlink\<close> the contents of a symbolic link, and \<open>openat\<close> the file
  opened for reading; \<open>Inl\<close> carries the text of the system's error.
\<close>

record filesystem =
  lstat :: "string \<Rightarrow> string + 32 word"
  readlink :: "string \<Rightarrow> string + string"
  openat :: "string \<Rightarrow> string + File"

section \<open>The standard library, as far as the program calls it\<close>

subsection \<open>\<^verbatim>\<open>filepath.Clean\<close> (Unix: the separator is \<^verbatim>\<open>/\<close>, there is no volume name)\<close>

definition IsPathSeparator :: "char \<Rightarrow> bool" where
  "IsPathSeparator c = (c = CHR ''/'')"

text \<open>\<^verbatim>\<open>r == n || os.IsPathSeparator(path[r])\<close> for the rest \<^verbatim>\<open>path[r:]\<close> of the path.\<close>

fun end_or_separator :: "string \<Rightarrow> bool" where
  "end_or_separator [] = True"
| "end_or_separator (c # _) = IsPathSeparator c"

text \<open>
  The inner loop of the \<^verbatim>\<open>..\<close> case: \<^verbatim>\<open>for out.w > dotdot && !os.IsPathSeparator(out.index(out.w)) { out.w-- }\<close>.
\<close>

fun backtrack :: "string \<Rightarrow> nat \<Rightarrow> nat \<Rightarrow> nat" where
  "backtrack out dotdot 0 = 0"
| "backtrack out dotdot (Suc w) =
     (if Suc w > dotdot \<and> \<not> IsPathSeparator (out ! Suc w) then backtrack out dotdot w
      else Suc w)"

text \<open>
  The main loop of \<^verbatim>\<open>Clean\<close>. The first argument is \<^verbatim>\<open>path[r:]\<close>, the part of the path
  still to read; \<open>out\<close> is the buffer written so far (\<^verbatim>\<open>out.w\<close> is its length).
\<close>

function clean_loop :: "bool \<Rightarrow> string \<Rightarrow> string \<Rightarrow> nat \<Rightarrow> string" where
  "clean_loop rooted [] out dotdot = out"
| "clean_loop rooted (c # rest) out dotdot =
     (if IsPathSeparator c then
        \<comment> \<open>empty path element\<close>
        clean_loop rooted rest out dotdot
      else if c = CHR ''.'' \<and> end_or_separator rest then
        \<comment> \<open>. element\<close>
        clean_loop rooted rest out dotdot
      else if c = CHR ''.'' \<and> take 1 rest = ''.'' \<and> end_or_separator (tl rest) then
        \<comment> \<open>.. element: remove to last separator\<close>
        (if length out > dotdot then
           clean_loop rooted (tl rest) (take (backtrack out dotdot (length out - 1)) out) dotdot
         else if \<not> rooted then
           clean_loop rooted (tl rest)
             ((if length out > 0 then out @ ''/'' else out) @ ''..'')
             (length ((if length out > 0 then out @ ''/'' else out) @ ''..''))
         else clean_loop rooted (tl rest) out dotdot)
      else
        \<comment> \<open>real path element: add slash if needed, copy element\<close>
        clean_loop rooted (dropWhile (\<lambda>x. \<not> IsPathSeparator x) rest)
          ((if rooted \<and> length out \<noteq> 1 \<or> \<not> rooted \<and> length out \<noteq> 0 then out @ ''/'' else out)
             @ c # takeWhile (\<lambda>x. \<not> IsPathSeparator x) rest)
          dotdot)"
  by pat_completeness auto
termination
proof (relation "measure (\<lambda>(rooted, path, out, dotdot). length path)")
  show "wf (measure (\<lambda>(rooted, path, out, dotdot). length path))"
    by simp
qed (auto simp: less_Suc_eq_le length_dropWhile_le intro: le_trans [OF length_dropWhile_le])

definition Clean :: "string \<Rightarrow> string" where
  "Clean path =
     (if path = [] then ''.''
      else
        let rooted = IsPathSeparator (hd path);
            out = (if rooted then clean_loop rooted (tl path) ''/'' 1
                   else clean_loop rooted path [] 0)
        in if length out = 0 then ''.'' else out)"

subsection \<open>Package \<^verbatim>\<open>os\<close>\<close>

text \<open>
  \<^verbatim>\<open>basename\<close> of package \<^verbatim>\<open>os\<close>, which gives a \<^verbatim>\<open>FileInfo\<close> its name: trailing slashes are
  removed (never the first byte), then everything up to the last slash that precedes the
  last byte.
\<close>

fun trim_slashes :: "string \<Rightarrow> string" where
  "trim_slashes [] = []"
| "trim_slashes [c] = [c]"
| "trim_slashes (c # cs) =
     (if last cs = CHR ''/'' then trim_slashes (c # butlast cs) else c # cs)"

definition basename :: "string \<Rightarrow> string" where
  "basename name =
     (case rev (trim_slashes name) of
        [] \<Rightarrow> []
      | c # front \<Rightarrow> rev (takeWhile (\<lambda>x. x \<noteq> CHR ''/'') front) @ [c])"

text \<open>\<^verbatim>\<open>os.FileMode\<close> and the two of its bits that the program tests.\<close>

type_synonym FileMode = "32 word"

definition ModeDir :: FileMode where
  "ModeDir = push_bit 31 1"

definition ModeSymlink :: FileMode where
  "ModeSymlink = push_bit 27 1"

record FileInfo =
  Name :: string
  Mode :: FileMode

definition IsDir :: "FileInfo \<Rightarrow> bool" where
  "IsDir i = (Mode i AND ModeDir \<noteq> 0)"

text \<open>
  \<^verbatim>\<open>os.Lstat\<close>, \<^verbatim>\<open>os.Readlink\<close> and \<^verbatim>\<open>os.Open\<close> wrap the system's error into a
  \<^verbatim>\<open>*PathError\<close>. \<^verbatim>\<open>Lstat\<close> names the entry by the base name of the path it was given.
  \<^verbatim>\<open>Readlink\<close> returns the empty string together with its error.
\<close>

definition Lstat :: "filesystem \<Rightarrow> string \<Rightarrow> error + FileInfo" where
  "Lstat fs name =
     (case lstat fs name of
        Inl e \<Rightarrow> Inl (PathError ''lstat'' name e)
      | Inr m \<Rightarrow> Inr \<lparr>Name = basename name, Mode = m\<rparr>)"

definition Readlink :: "filesystem \<Rightarrow> string \<Rightarrow> string \<times> error option" where
  "Readlink fs name =
     (case readlink fs name of
        Inl e \<Rightarrow> ([], Some (PathError ''readlink'' name e))
      | Inr target \<Rightarrow> (target, None))"

definition Open :: "filesystem \<Rightarrow> string \<Rightarrow> error + File" where
  "Open fs name =
     (case openat fs name of
        Inl e \<Rightarrow> Inl (PathError ''open'' name e)
      | Inr f \<Rightarrow> Inr f)"

subsection \<open>\<^verbatim>\<open>io.Copy\<close>\<close>

text \<open>
  \<^verbatim>\<open>io.Copy(dst, src)\<close> asks the source for the method \<^verbatim>\<open>WriteTo\<close>, then the destination
  for the method \<^verbatim>\<open>ReadFrom\<close>, and only when neither is there does it run its own loop:
  \<^verbatim>\<open>
  if wt, ok := src.(WriterTo); ok { return wt.WriteTo(dst) }
  if rf, ok := dst.(ReaderFrom); ok { return rf.ReadFrom(src) }
  \<close>
  The source of the program is an \<^verbatim>\<open>*os.File\<close>. Up to Go 1.21 it has no \<^verbatim>\<open>WriteTo\<close>; from
  Go 1.22 on its \<^verbatim>\<open>WriteTo\<close> serves a destination that is a network connection, and for any
  other calls \<^verbatim>\<open>io.Copy\<close> again on the file without that method. So the destination
  decides: with \<^verbatim>\<open>ReadFrom\<close>, the copy is that call and returns what it returns; without,
  the copy is the loop (as of Go 1.17 and later): read a buffer, write what was read,
  stop at the first error of either side.
  \<^verbatim>\<open>
  for {
      nr, er := src.Read(buf)
      if nr > 0 {
          nw, ew := dst.Write(buf[0:nr])
          if nw < 0 || nr < nw {
              nw = 0
              if ew == nil { ew = errInvalidWrite }
          }
          written += int64(nw)
          if ew != nil { err = ew; break }
          if nr != nw { err = ErrShortWrite; break }
      }
      if er != nil {
          if er != EOF { err = er }
          break
      }
  }
  return written, err
  \<close>
\<close>

fun copyBuffer :: "'w WriteMethod \<Rightarrow> 'w \<Rightarrow> File \<Rightarrow> int \<Rightarrow> int \<times> error option \<times> 'w" where
  "copyBuffer wr w [] written = (written, None, w)"
| "copyBuffer wr w ((buf, er) # src) written =
     (if length buf > 0 then
        (case wr w buf of (nw, ew, w') \<Rightarrow>
           (if nw < 0 \<or> int (length buf) < nw then
              (written, (if ew = None then Some errInvalidWrite else ew), w')
            else if ew \<noteq> None then (written + nw, ew, w')
            else if int (length buf) \<noteq> nw then (written + nw, Some ErrShortWrite, w')
            else if er \<noteq> None then (written + nw, (if er \<noteq> Some EOF then er else None), w')
            else copyBuffer wr w' src (written + nw)))
      else if er \<noteq> None then (written, (if er \<noteq> Some EOF then er else None), w)
      else copyBuffer wr w src written)"

definition Copy :: "'w Writer \<Rightarrow> 'w \<Rightarrow> File \<Rightarrow> int \<times> error option \<times> 'w" where
  "Copy dst w src =
     (case ReadFrom dst of
        Some readFrom \<Rightarrow> readFrom w src
      | None \<Rightarrow> copyBuffer (Write dst) w src 0)"


section \<open>The program\<close>

text \<open>
  \<^verbatim>\<open>cat\<close> of \<^verbatim>\<open>cat.go\<close>, with \<open>dst\<close> for its writer. It returns the error (\<open>None\<close> is
  \<^verbatim>\<open>nil\<close>) and the state of the writer. The deferred \<^verbatim>\<open>f.Close()\<close> has no result that the program uses.
\<close>

definition cat :: "filesystem \<Rightarrow> 'w Writer \<Rightarrow> string \<Rightarrow> 'w \<Rightarrow> error option \<times> 'w" where
  "cat fs dst src0 w =
     (let src = Clean src0 in
      case Lstat fs src of
        Inl err \<Rightarrow> (Some (Errorf (src @ '': No such file or directory'')), w)
      | Inr i \<Rightarrow>
          if IsDir i then (Some (Errorf (Name i @ '': Is a directory'')), w)
          else
            let src = (if Mode i AND ModeSymlink \<noteq> 0 then fst (Readlink fs src) else src) in
            (case Open fs src of
               Inl err \<Rightarrow> (Some (Errorf (''cannot open '' @ src)), w)
             | Inr f \<Rightarrow> (case Copy dst w f of (written, err, w') \<Rightarrow> (err, w'))))"




section \<open>The writers of the tests\<close>

text \<open>
  \<^verbatim>\<open>completeWriter\<close> appends all it is given, \<^verbatim>\<open>incompleteWriter\<close> takes one byte of
  each write, \<^verbatim>\<open>faultyWriter\<close> fails every write. The state of the first two is \<^verbatim>\<open>buf\<close>.
  Each type has the method \<^verbatim>\<open>Write\<close> and no \<^verbatim>\<open>ReadFrom\<close>: the definitions are their
  \<^verbatim>\<open>Write\<close>, and the writers are \<open>writer completeWriter\<close> and so on.
\<close>

definition completeWriter :: "byte list WriteMethod" where
  "completeWriter buf b = (int (length b), None, buf @ b)"

definition incompleteWriter :: "byte list WriteMethod" where
  "incompleteWriter buf b =
     (case b of [] \<Rightarrow> (0, Some EOF, buf) | b0 # _ \<Rightarrow> (1, None, buf @ [b0]))"

definition faultyWriter :: "unit WriteMethod" where
  "faultyWriter u b = (0, Some ErrUnexpectedEOF, u)"

section \<open>Notions the properties are stated with\<close>

subsection \<open>What a writer was given\<close>

text \<open>
  \<open>traced wr\<close> is the method \<open>wr\<close> together with a record of the bytes it has
  accepted: of a call \<^verbatim>\<open>Write(p)\<close> that returns \<open>n\<close>, the first \<open>n\<close> bytes of \<open>p\<close>.
  The record is only observed; \<open>copyBuffer_traced\<close> below shows that the writer
  behaves as before.
\<close>

definition traced :: "'w WriteMethod \<Rightarrow> ('w \<times> byte list) WriteMethod" where
  "traced wr =
     (\<lambda>(w, log) b. case wr w b of (n, e, w') \<Rightarrow> (n, e, (w', log @ take (nat n) b)))"


subsection \<open>What a file holds\<close>


definition content :: "File \<Rightarrow> byte list" where
  "content f = concat (map fst f)"

subsection \<open>The conditions under which \<^verbatim>\<open>cat\<close> fails\<close>

text \<open>
  The checks of \<^verbatim>\<open>cat\<close> before the copy, each as a condition on the file system, in the
  order of the code: \<^verbatim>\<open>Lstat\<close> of the cleaned path fails; it succeeds on a directory;
  the entry is no directory and \<^verbatim>\<open>Open\<close> fails on \<open>path_opened\<close>, the path that \<^verbatim>\<open>cat\<close>
  opens (what \<^verbatim>\<open>Readlink\<close> returned for a symbolic link, the cleaned path otherwise).
  \<open>file_opened\<close> is the file that the copy reads when none of the three holds.
\<close>

definition not_found :: "filesystem \<Rightarrow> string \<Rightarrow> bool" where
  "not_found fs src = (case lstat fs (Clean src) of Inl e \<Rightarrow> True | Inr m \<Rightarrow> False)"

definition is_directory :: "filesystem \<Rightarrow> string \<Rightarrow> bool" where
  "is_directory fs src =
     (case lstat fs (Clean src) of Inl e \<Rightarrow> False | Inr m \<Rightarrow> m AND ModeDir \<noteq> 0)"

definition path_opened :: "filesystem \<Rightarrow> string \<Rightarrow> string" where
  "path_opened fs src =
     (case lstat fs (Clean src) of
        Inl e \<Rightarrow> Clean src
      | Inr m \<Rightarrow> if m AND ModeSymlink \<noteq> 0 then fst (Readlink fs (Clean src)) else Clean src)"

definition cannot_open :: "filesystem \<Rightarrow> string \<Rightarrow> bool" where
  "cannot_open fs src =
     (case lstat fs (Clean src) of
        Inl e \<Rightarrow> False
      | Inr m \<Rightarrow>
          m AND ModeDir = 0 \<and>
          (case openat fs (path_opened fs src) of Inl e \<Rightarrow> True | Inr f \<Rightarrow> False))"

definition file_opened :: "filesystem \<Rightarrow> string \<Rightarrow> File option" where
  "file_opened fs src =
     (case lstat fs (Clean src) of
        Inl e \<Rightarrow> None
      | Inr m \<Rightarrow>
          if m AND ModeDir \<noteq> 0 then None
          else (case openat fs (path_opened fs src) of Inl e \<Rightarrow> None | Inr f \<Rightarrow> Some f))"

text \<open>
  The two ways in which the copy fails. \<open>write_failure\<close>: a \<^verbatim>\<open>Write\<close> of the copy is rejected
  (it returns an error, or a count that is not the length of what it was given); the value
  is the error that \<^verbatim>\<open>io.Copy\<close> then returns. \<open>read_failure\<close>: every \<^verbatim>\<open>Write\<close> so far was
  accepted, and a \<^verbatim>\<open>Read\<close> returns an error other than \<^verbatim>\<open>io.EOF\<close>; the value is that error.
\<close>

fun write_failure :: "'w WriteMethod \<Rightarrow> 'w \<Rightarrow> File \<Rightarrow> error option" where
  "write_failure wr w [] = None"
| "write_failure wr w ((buf, er) # src) =
     (if buf = [] then (if er = None then write_failure wr w src else None)
      else
        (case wr w buf of (nw, ew, w') \<Rightarrow>
           (case ew of
              Some e \<Rightarrow> Some e
            | None \<Rightarrow>
                if nw < 0 \<or> int (length buf) < nw then Some errInvalidWrite
                else if nw \<noteq> int (length buf) then Some ErrShortWrite
                else if er = None then write_failure wr w' src
                else None)))"

fun read_failure :: "'w WriteMethod \<Rightarrow> 'w \<Rightarrow> File \<Rightarrow> error option" where
  "read_failure wr w [] = None"
| "read_failure wr w ((buf, er) # src) =
     (if buf = [] then
        (case er of None \<Rightarrow> read_failure wr w src
         | Some e \<Rightarrow> if e = EOF then None else Some e)
      else
        (case wr w buf of (nw, ew, w') \<Rightarrow>
           if ew = None \<and> nw = int (length buf) then
             (case er of None \<Rightarrow> read_failure wr w' src
              | Some e \<Rightarrow> if e = EOF then None else Some e)
           else None))"

subsection \<open>Streaming each argument in turn\<close>




subsection \<open>The target of a symbolic link\<close>

text \<open>
  The path that the system follows a symbolic link to: the text of the link when it
  begins with a slash, and otherwise that text taken from the directory that holds the
  link.
\<close>

definition link_target :: "string \<Rightarrow> string \<Rightarrow> string" where
  "link_target link txt =
     (if take 1 txt = ''/'' then txt
      else rev (dropWhile (\<lambda>c. c \<noteq> CHR ''/'') (rev link)) @ txt)"

section \<open>A file system and a terminal to run the program on\<close>

text \<open>
  A directory \<^verbatim>\<open>testdata\<close> as the tests use it, seen from the directory above it: regular
  files of text and of binary content, and the links \<^verbatim>\<open>c.txt\<close> and \<^verbatim>\<open>d.txt\<close> whose texts
  \<^verbatim>\<open>testdata/a.txt\<close> and \<^verbatim>\<open>testdata/none.txt\<close> are paths from the directory above. Beside
  them: \<^verbatim>\<open>e.txt\<close>, a link whose text is the directory; \<^verbatim>\<open>f.txt\<close>, a link that cannot be read;
  and \<^verbatim>\<open>g.txt\<close>, a link made by \<^verbatim>\<open>ln -s a.txt testdata/g.txt\<close>, through which the system opens
  \<^verbatim>\<open>testdata/a.txt\<close>.
\<close>

definition example_fs :: filesystem where
  "example_fs =
     \<lparr>lstat = (\<lambda>name.
        case map_of
          [(''testdata'', ModeDir OR 0x1ED),
           (''testdata/a.txt'', 0x1A4),
           (''testdata/b.md'', 0x1A4),
           (''testdata/c.txt'', ModeSymlink OR 0x1FF),
           (''testdata/d.txt'', ModeSymlink OR 0x1FF),
           (''testdata/e.txt'', ModeSymlink OR 0x1FF),
           (''testdata/f.txt'', ModeSymlink OR 0x1FF),
           (''testdata/g.txt'', ModeSymlink OR 0x1FF),
           (''testdata/x.png'', 0x1A4)] name
        of None \<Rightarrow> Inl ''no such file or directory'' | Some m \<Rightarrow> Inr m),
      readlink = (\<lambda>name.
        case map_of
          [(''testdata/c.txt'', Inr ''testdata/a.txt''),
           (''testdata/d.txt'', Inr ''testdata/none.txt''),
           (''testdata/e.txt'', Inr ''testdata''),
           (''testdata/f.txt'', Inl ''input/output error''),
           (''testdata/g.txt'', Inr ''a.txt'')] name
        of None \<Rightarrow> Inl ''invalid argument'' | Some r \<Rightarrow> r),
      openat = (\<lambda>name.
        case map_of
          [(''testdata'', [([], Some (PathError ''read'' ''testdata'' ''is a directory''))]),
           (''testdata/a.txt'', [(bytes ''hello'', None)]),
           (''testdata/b.md'', [(bytes ''world'', None)]),
           (''testdata/g.txt'', [(bytes ''hello'', None)]),
           (''testdata/x.png'',
              [([0x89, 0x50, 0x4E, 0x47], None), ([0x0D, 0x0A, 0x1A, 0x0A], None)])] name
        of None \<Rightarrow> Inl ''no such file or directory'' | Some f \<Rightarrow> Inr f)\<rparr>"



text \<open>
  A writer with room for a number of bytes, its state: it accepts what fits, and fails
  on a write that does not fit, after taking the part that does.
\<close>

definition boundedWriter :: "nat WriteMethod" where
  "boundedWriter room b =
     (if length b \<le> room then (int (length b), None, room - length b)
      else (int room, Some (errorString ''no space left on device''), 0))"

section \<open>Facts about the library functions\<close>

text \<open>For a writer with no \<^verbatim>\<open>ReadFrom\<close>, the copy is the loop.\<close>

lemma Write_writer [simp]: "Write (writer wr) = wr"
  by (simp add: writer_def)

lemma ReadFrom_writer [simp]: "ReadFrom (writer wr) = None"
  by (simp add: writer_def)

lemma Copy_writer [simp]: "Copy (writer wr) w f = copyBuffer wr w f 0"
  by (simp add: Copy_def)

lemma traced_apply:
  "traced wr (w, log) b =
     (fst (wr w b), fst (snd (wr w b)),
      (snd (snd (wr w b)), log @ take (nat (fst (wr w b))) b))"
  by (simp add: traced_def split: prod.splits)

text \<open>Recording does not change what the copy returns, nor the state of the writer.\<close>

lemma copyBuffer_traced:
  "\<exists>log'. copyBuffer (traced wr) (w, log) f n =
     (fst (copyBuffer wr w f n), fst (snd (copyBuffer wr w f n)),
      (snd (snd (copyBuffer wr w f n)), log'))"
proof (induction f arbitrary: w log n)
  case Nil
  show ?case by simp
next
  case (Cons a f)
  obtain buf er where a: "a = (buf, er)" by (cases a)
  obtain nw ew w' where W: "wr w buf = (nw, ew, w')" by (cases "wr w buf")
  show ?case
    using Cons.IH by (auto simp add: a W traced_apply)
qed



text \<open>
  While the reads return no error and the writes are accepted, the copy goes on: the copy
  of a file that begins so continues from where that beginning ends.
\<close>

lemma copyBuffer_append:
  assumes "\<forall>x \<in> set pre. snd x = None" and "copyBuffer wr w pre n = (n1, None, w1)"
  shows "copyBuffer wr w (pre @ rest) n = copyBuffer wr w1 rest n1"
  using assms
proof (induction pre arbitrary: w n)
  case Nil
  then show ?case by simp
next
  case (Cons a pre)
  obtain buf er where a: "a = (buf, er)" by (cases a)
  with Cons.prems(1) have er: "er = None" by simp
  obtain nw ew w' where W: "wr w buf = (nw, ew, w')" by (cases "wr w buf")
  from Cons.prems(1) have pre: "\<forall>x \<in> set pre. snd x = None" by simp
  show ?case
  proof (cases "buf = []")
    case True
    with Cons.prems(2) have "copyBuffer wr w pre n = (n1, None, w1)"
      by (simp add: a er)
    from Cons.IH [OF pre this] show ?thesis
      by (simp add: a er True)
  next
    case False
    with Cons.prems(2) have ok: "\<not> (nw < 0 \<or> int (length buf) < nw)" "ew = None" "int (length buf) = nw"
      and "copyBuffer wr w' pre (n + nw) = (n1, None, w1)"
      by (auto simp add: a er W split: if_splits)
    from Cons.IH [OF pre this(4)] ok show ?thesis
      by (simp add: a er W False)
  qed
qed

text \<open>The record of such a beginning is its content.\<close>

lemma copyBuffer_traced_accepted:
  assumes "\<forall>x \<in> set pre. snd x = None"
    and "copyBuffer (traced wr) (w, log) pre n = (n1, None, (w1, log1))"
  shows "log1 = log @ content pre"
  using assms
proof (induction pre arbitrary: w log n)
  case Nil
  then show ?case by (simp add: content_def)
next
  case (Cons a pre)
  obtain buf er where a: "a = (buf, er)" by (cases a)
  with Cons.prems(1) have er: "er = None" by simp
  obtain nw ew w' where W: "wr w buf = (nw, ew, w')" by (cases "wr w buf")
  from Cons.prems(1) have pre: "\<forall>x \<in> set pre. snd x = None" by simp
  show ?case
  proof (cases "buf = []")
    case True
    with Cons.prems(2) have "copyBuffer (traced wr) (w, log) pre n = (n1, None, (w1, log1))"
      by (simp add: a er)
    from Cons.IH [OF pre this] show ?thesis
      by (simp add: a True content_def)
  next
    case False
    with Cons.prems(2) have nw: "int (length buf) = nw"
      and "copyBuffer (traced wr) (w', log @ take (nat nw) buf) pre (n + nw) = (n1, None, (w1, log1))"
      by (auto simp add: a er W traced_apply split: if_splits)
    from Cons.IH [OF pre this(2)] nw show ?thesis
      by (auto simp add: a content_def)
  qed
qed

text \<open>A write that returns an error ends the copy with that error.\<close>

lemma copyBuffer_rejected:
  assumes "buf \<noteq> []" and "wr w buf = (nw, Some e, w')"
  shows "\<exists>n'. copyBuffer wr w ((buf, er) # rest) n = (n', Some e, w')"
  using assms by simp

text \<open>The error of the copy is that of its write failure or of its read failure, and not both occur.\<close>

lemma copyBuffer_error:
  "fst (snd (copyBuffer wr w f n)) =
     (case write_failure wr w f of Some e \<Rightarrow> Some e | None \<Rightarrow> read_failure wr w f)"
proof (induction f arbitrary: w n)
  case Nil
  show ?case by simp
next
  case (Cons a f)
  obtain buf er where a: "a = (buf, er)" by (cases a)
  obtain nw ew w' where W: "wr w buf = (nw, ew, w')" by (cases "wr w buf")
  show ?case
    unfolding a using Cons.IH [of w n] Cons.IH [of w' "n + nw"]
    by (cases ew; cases er) (auto simp add: W split: option.splits)
qed

lemma write_or_read_failure:
  "write_failure wr w f = None \<or> read_failure wr w f = None"
proof (induction f arbitrary: w)
  case Nil
  show ?case by simp
next
  case (Cons a f)
  obtain buf er where a: "a = (buf, er)" by (cases a)
  obtain nw ew w' where W: "wr w buf = (nw, ew, w')" by (cases "wr w buf")
  show ?case
    unfolding a using Cons.IH [of w] Cons.IH [of w']
    by (cases ew; cases er) (auto simp add: W split: option.splits)
qed

text \<open>The base name of a path has no directory part: it holds no slash, but for the root.\<close>

lemma trim_slashes_end:
  "trim_slashes name = [] \<or> length (trim_slashes name) = 1 \<or> last (trim_slashes name) \<noteq> CHR ''/''"
proof (induction name rule: trim_slashes.induct)
  case 1
  show ?case by simp
next
  case (2 c)
  show ?case by simp
next
  case (3 c v va)
  show ?case
  proof (cases "last (v # va) = CHR ''/''")
    case True
    have "trim_slashes (c # v # va) = trim_slashes (c # butlast (v # va))"
      using True by (simp only: trim_slashes.simps simp_thms if_True)
    with "3.IH" [OF True] show ?thesis by (simp only:)
  next
    case False
    have "trim_slashes (c # v # va) = c # v # va"
      using False by (simp only: trim_slashes.simps simp_thms if_False)
    with False show ?thesis by simp
  qed
qed

lemma basename_no_directory:
  "CHR ''/'' \<in> set (basename name) \<Longrightarrow> basename name = ''/''"
proof -
  assume a: "CHR ''/'' \<in> set (basename name)"
  show ?thesis
  proof (cases "rev (trim_slashes name)")
    case Nil
    with a show ?thesis by (simp add: basename_def)
  next
    case (Cons c front)
    with a have c: "c = CHR ''/''"
      by (auto simp add: basename_def dest: set_takeWhileD)
    from Cons have t: "trim_slashes name = rev front @ [c]"
      by (metis rev.simps(2) rev_rev_ident)
    with c trim_slashes_end [of name] have "front = []"
      by auto
    with Cons c show ?thesis by (simp add: basename_def)
  qed
qed

section \<open>The steps of \<^verbatim>\<open>cat\<close>\<close>

lemma cat_Lstat_fails:
  "lstat fs (Clean src) = Inl e \<Longrightarrow>
   cat fs dst src w = (Some (Errorf (Clean src @ '': No such file or directory'')), w)"
  by (simp add: cat_def Lstat_def)

lemma cat_directory:
  "lstat fs (Clean src) = Inr m \<Longrightarrow> m AND ModeDir \<noteq> 0 \<Longrightarrow>
   cat fs dst src w = (Some (Errorf (basename (Clean src) @ '': Is a directory'')), w)"
  by (simp add: cat_def Lstat_def IsDir_def)

lemma cat_opens:
  "lstat fs (Clean src) = Inr m \<Longrightarrow> m AND ModeDir = 0 \<Longrightarrow>
   name = (if m AND ModeSymlink \<noteq> 0 then fst (Readlink fs (Clean src)) else Clean src) \<Longrightarrow>
   cat fs dst src w =
     (case openat fs name of
        Inl e \<Rightarrow> (Some (Errorf (''cannot open '' @ name)), w)
      | Inr f \<Rightarrow> (fst (snd (Copy dst w f)), snd (snd (Copy dst w f))))"
  by (simp add: cat_def Lstat_def IsDir_def Open_def Let_def split: sum.splits prod.splits)

text \<open>
  When the text of a symbolic link opens as it is, from the working directory, the file
  so opened is copied.
\<close>

lemma cat_symlink_text_opens:
  assumes "lstat fs (Clean src) = Inr m" and "m AND ModeDir = 0" and "m AND ModeSymlink \<noteq> 0"
    and "readlink fs (Clean src) = Inr target"
    and "openat fs target = Inr f"
  shows "cat fs dst src w = (fst (snd (Copy dst w f)), snd (snd (Copy dst w f)))"
  using assms by (simp add: cat_opens [where m = m and name = target] Readlink_def)

section \<open>The loops of \<^verbatim>\<open>main\<close>\<close>









text \<open>The facts that evaluate the program on the example file system.\<close>

lemmas run_example =
  cat_def Lstat_def Readlink_def Open_def Clean_def IsPathSeparator_def basename_def
  IsDir_def ModeDir_def ModeSymlink_def bytes_def example_fs_def
  completeWriter_def incompleteWriter_def faultyWriter_def traced_apply

section \<open>The properties\<close>



text \<open>
  C2, as the code has it. When \<^verbatim>\<open>Lstat\<close> of the cleaned path fails, \<^verbatim>\<open>cat\<close> fails with the
  error \<^verbatim>\<open><path>: No such file or directory\<close>, where the path is the cleaned one,
  \<^verbatim>\<open>filepath.Clean(src)\<close>; it is the path as given when that is clean already. Nothing is
  written.
\<close>

theorem cat_not_found_names_clean_path:
  assumes "lstat fs (Clean src) = Inl e"
  shows "\<exists>err. cat fs dst src w = (Some err, w) \<and>
           Error err = Clean src @ '': No such file or directory''"
  using assms by (simp add: cat_def Lstat_def)

theorem cat_not_found_names_clean_path_witness:
  "\<exists>err. cat example_fs (writer incompleteWriter) ''testdata/../none.txt'' [] = (Some err, []) \<and>
     Error err = ''none.txt: No such file or directory''"
proof -
  have 1: "lstat example_fs (Clean ''testdata/../none.txt'') = Inl ''no such file or directory''"
    by (simp add: run_example)
  have 2: "Clean ''testdata/../none.txt'' = ''none.txt''"
    by (simp add: run_example)
  from cat_not_found_names_clean_path [OF 1, of "writer incompleteWriter" "[]"] show ?thesis
    by (simp add: 2)
qed

text \<open>
  The claim as the specification states it, with the path as given in the message, fails
  for a path that is not clean: for \<^verbatim>\<open>./none.txt\<close>, which does not exist, the message names
  \<^verbatim>\<open>none.txt\<close>.
\<close>

theorem cat_not_found_given_path_counterexample:
  "lstat example_fs ''./none.txt'' = Inl ''no such file or directory'' \<and>
   fst (cat example_fs (writer incompleteWriter) ''./none.txt'' []) =
     Some (Errorf ''none.txt: No such file or directory'') \<and>
   fst (cat example_fs (writer incompleteWriter) ''./none.txt'' []) \<noteq>
     Some (Errorf (''./none.txt'' @ '': No such file or directory''))"
  by (simp add: run_example)

text \<open>
  C3. When \<^verbatim>\<open>Lstat\<close> of the cleaned path finds a directory, \<^verbatim>\<open>cat\<close> fails with the error
  \<^verbatim>\<open><name>: Is a directory\<close>, where the name is the base name of the path: what follows
  its last slash. The name holds no slash, so no directory part, unless it is the root
  \<^verbatim>\<open>/\<close> itself.
\<close>

theorem cat_directory_names_base_name:
  assumes "lstat fs (Clean src) = Inr m" and "m AND ModeDir \<noteq> 0"
  shows "\<exists>err. cat fs dst src w = (Some err, w) \<and>
           Error err = basename (Clean src) @ '': Is a directory'' \<and>
           (CHR ''/'' \<in> set (basename (Clean src)) \<longrightarrow> basename (Clean src) = ''/'')"
  using assms basename_no_directory [of "Clean src"]
  by (simp add: cat_def Lstat_def IsDir_def)

theorem cat_directory_names_base_name_witness:
  "\<exists>err. cat example_fs (writer incompleteWriter) ''testdata/../testdata/'' [] = (Some err, []) \<and>
     Error err = ''testdata: Is a directory''"
proof -
  let ?m = "ModeDir OR 0x1ED"
  have 1: "lstat example_fs (Clean ''testdata/../testdata/'') = Inr ?m"
    by (simp add: run_example)
  have 2: "?m AND ModeDir \<noteq> 0"
    by (simp add: run_example)
  have 3: "basename (Clean ''testdata/../testdata/'') = ''testdata''"
    by (simp add: run_example)
  from cat_directory_names_base_name [OF 1 2, of "writer incompleteWriter" "[]"] show ?thesis
    by (simp add: 3)
qed

text \<open>
  C4. A symbolic link whose target cannot be opened: \<^verbatim>\<open>cat\<close> fails with the error
  \<^verbatim>\<open>cannot open <target>\<close>, where the target is the string that \<^verbatim>\<open>Readlink\<close> returned, as it
  is; the path of the link is not what the message names. Nothing is written.
\<close>

theorem cat_dangling_symlink_names_target:
  assumes "lstat fs (Clean src) = Inr m" and "m AND ModeDir = 0" and "m AND ModeSymlink \<noteq> 0"
    and "readlink fs (Clean src) = Inr target"
    and "openat fs target = Inl e"
  shows "\<exists>err. cat fs dst src w = (Some err, w) \<and> Error err = ''cannot open '' @ target"
  using assms by (simp add: cat_opens [where m = m and name = target] Readlink_def)

theorem cat_dangling_symlink_names_target_witness:
  "\<exists>err. cat example_fs (writer incompleteWriter) ''testdata/d.txt'' [] = (Some err, []) \<and>
     Error err = ''cannot open testdata/none.txt''"
proof -
  let ?m = "ModeSymlink OR 0x1FF"
  have 1: "lstat example_fs (Clean ''testdata/d.txt'') = Inr ?m"
    by (simp add: run_example)
  have 2: "?m AND ModeDir = 0" and 3: "?m AND ModeSymlink \<noteq> 0"
    by (simp_all add: run_example)
  have 4: "readlink example_fs (Clean ''testdata/d.txt'') = Inr ''testdata/none.txt''"
    by (simp add: run_example)
  have 5: "openat example_fs ''testdata/none.txt'' = Inl ''no such file or directory''"
    by (simp add: example_fs_def)
  from cat_dangling_symlink_names_target [OF 1 2 3 4 5, of "writer incompleteWriter" "[]"] show ?thesis
    by simp
qed

text \<open>
  C5. A symbolic link whose target exists and is a regular file is to be streamed as
  that file. \<^verbatim>\<open>cat\<close> opens the text of the link as a path from the working directory, not
  from the directory that holds the link. For the link \<^verbatim>\<open>testdata/g.txt\<close> with the text
  \<^verbatim>\<open>a.txt\<close> the target is \<^verbatim>\<open>testdata/a.txt\<close>, a regular file that can be read; \<^verbatim>\<open>cat\<close>
  opens \<^verbatim>\<open>a.txt\<close> and fails with \<^verbatim>\<open>cannot open a.txt\<close>, and nothing is written.
\<close>

theorem cat_relative_symlink_not_followed:
  "lstat example_fs (Clean ''testdata/g.txt'') = Inr (ModeSymlink OR 0x1FF) \<and>
   readlink example_fs (Clean ''testdata/g.txt'') = Inr ''a.txt'' \<and>
   link_target (Clean ''testdata/g.txt'') ''a.txt'' = ''testdata/a.txt'' \<and>
   lstat example_fs ''testdata/a.txt'' = Inr 0x1A4 \<and>
   openat example_fs ''testdata/a.txt'' = Inr [(bytes ''hello'', None)] \<and>
   cat example_fs (writer completeWriter) ''testdata/g.txt'' [] =
     (Some (Errorf ''cannot open a.txt''), [])"
  by (simp add: link_target_def run_example)

text \<open>
  C6. A regular file, and a writer that accepts the writes of the first reads and rejects
  the next write with an error: \<^verbatim>\<open>cat\<close> fails with that very error, not wrapped into
  another. The writer is left as the rejected write left it: it was given the bytes of
  the accepted writes and the part of the rejected one that it took, and these stay.
  That the first writes are accepted is stated as: copying the reads before the rejected
  one alone succeeds. The writer is one that is written to, with the method \<^verbatim>\<open>Write\<close>
  alone.
\<close>

theorem cat_returns_error_of_writer:
  assumes "lstat fs (Clean src) = Inr m" and "m AND ModeDir = 0" and "m AND ModeSymlink = 0"
    and "openat fs (Clean src) = Inr (pre @ (buf, er) # rest)"
    and "\<forall>x \<in> set pre. snd x = None"
    and "Copy (writer wr) w pre = (n, None, wk)"
    and "buf \<noteq> []" and "wr wk buf = (nw, Some e, w')"
  shows "cat fs (writer wr) src w = (Some e, w') \<and>
         cat fs (writer (traced wr)) src (w, log) =
           (Some e, (w', log @ content pre @ take (nat nw) buf))"
proof -
  let ?f = "pre @ (buf, er) # rest"
  have cat: "cat fs W src s = (fst (snd (Copy W s ?f)), snd (snd (Copy W s ?f)))"
    for W :: "'b Writer" and s
    using assms(1-4) by (simp add: cat_opens [where m = m and name = "Clean src"])
  from assms(6) have pre: "copyBuffer wr w pre 0 = (n, None, wk)"
    by simp
  from copyBuffer_rejected [where wr = wr and w = wk, OF assms(7,8)] obtain n' where
    "copyBuffer wr wk ((buf, er) # rest) n = (n', Some e, w')"
    by blast
  with copyBuffer_append [OF assms(5) pre] have "Copy (writer wr) w ?f = (n', Some e, w')"
    by simp
  then have plain: "cat fs (writer wr) src w = (Some e, w')"
    by (simp add: cat)
  from copyBuffer_traced [of wr w log pre 0] pre obtain logk where
    tpre: "copyBuffer (traced wr) (w, log) pre 0 = (n, None, (wk, logk))"
    by auto
  from copyBuffer_traced_accepted [OF assms(5) tpre] have logk: "logk = log @ content pre" .
  from assms(8) have "traced wr (wk, logk) buf = (nw, Some e, (w', logk @ take (nat nw) buf))"
    by (simp add: traced_apply)
  from copyBuffer_rejected [where wr = "traced wr" and w = "(wk, logk)", OF assms(7) this]
  obtain n'' where
    "copyBuffer (traced wr) (wk, logk) ((buf, er) # rest) n =
       (n'', Some e, (w', logk @ take (nat nw) buf))"
    by blast
  with copyBuffer_append [OF assms(5) tpre]
  have "Copy (writer (traced wr)) (w, log) ?f = (n'', Some e, (w', logk @ take (nat nw) buf))"
    by simp
  then have "cat fs (writer (traced wr)) src (w, log) = (Some e, (w', logk @ take (nat nw) buf))"
    by (simp add: cat)
  with plain logk show ?thesis
    by simp
qed

theorem cat_returns_error_of_writer_witness:
  "cat example_fs (writer boundedWriter) ''testdata/x.png'' 6 =
     (Some (errorString ''no space left on device''), 0) \<and>
   cat example_fs (writer (traced boundedWriter)) ''testdata/x.png'' (6, []) =
     (Some (errorString ''no space left on device''), (0, [0x89, 0x50, 0x4E, 0x47, 0x0D, 0x0A]))"
proof -
  let ?pre = "[([0x89, 0x50, 0x4E, 0x47], None)] :: File"
  let ?buf = "[0x0D, 0x0A, 0x1A, 0x0A] :: byte list"
  have 1: "lstat example_fs (Clean ''testdata/x.png'') = Inr 0x1A4"
    by (simp add: run_example)
  have 2: "(0x1A4 :: FileMode) AND ModeDir = 0" and 3: "(0x1A4 :: FileMode) AND ModeSymlink = 0"
    by (simp_all add: run_example)
  have 4: "openat example_fs (Clean ''testdata/x.png'') = Inr (?pre @ (?buf, None) # [])"
    by (simp add: run_example)
  have 5: "\<forall>x \<in> set ?pre. snd x = None"
    by simp
  have 6: "Copy (writer boundedWriter) 6 ?pre = (4, None, 2)"
    by (simp add: boundedWriter_def)
  have 7: "?buf \<noteq> []"
    by simp
  have 8: "boundedWriter 2 ?buf = (2, Some (errorString ''no space left on device''), 0)"
    by (simp add: boundedWriter_def)
  from cat_returns_error_of_writer [OF 1 2 3 4 5 6 7 8, of "[]"] show ?thesis
    by (simp add: content_def)
qed

text \<open>
  C7, as the code has it. \<^verbatim>\<open>cat\<close> returns one error or none, and which one is decided by
  conditions in a fixed order: not found, then is a directory, then cannot open, then
  the failure of the copy. The copy fails as \<^verbatim>\<open>io.Copy\<close> does: for a writer with the method
  \<^verbatim>\<open>ReadFrom\<close>, as \<^verbatim>\<open>os.Stdout\<close> is, with the error which that method returns; for any other
  writer with a write failure or a read failure, whichever comes first. No two of the
  conditions hold together, and when one of the first three holds no file is opened and
  nothing is copied.
\<close>

theorem cat_error_by_first_failing_check:
  "fst (cat fs dst src w) =
     (if not_found fs src then Some (Errorf (Clean src @ '': No such file or directory''))
      else if is_directory fs src then Some (Errorf (basename (Clean src) @ '': Is a directory''))
      else if cannot_open fs src then Some (Errorf (''cannot open '' @ path_opened fs src))
      else case file_opened fs src of
             None \<Rightarrow> None
           | Some f \<Rightarrow>
               (case ReadFrom dst of
                  Some readFrom \<Rightarrow> fst (snd (readFrom w f))
                | None \<Rightarrow>
                    (case write_failure (Write dst) w f of
                       Some e \<Rightarrow> Some e
                     | None \<Rightarrow> read_failure (Write dst) w f))) \<and>
   \<not> (not_found fs src \<and> is_directory fs src) \<and>
   \<not> (not_found fs src \<and> cannot_open fs src) \<and>
   \<not> (is_directory fs src \<and> cannot_open fs src) \<and>
   (not_found fs src \<or> is_directory fs src \<or> cannot_open fs src) = (file_opened fs src = None) \<and>
   (\<forall>f. write_failure (Write dst) w f = None \<or> read_failure (Write dst) w f = None)"
proof -
  have excl: "\<not> (not_found fs src \<and> is_directory fs src)"
    "\<not> (not_found fs src \<and> cannot_open fs src)"
    "\<not> (is_directory fs src \<and> cannot_open fs src)"
    "(not_found fs src \<or> is_directory fs src \<or> cannot_open fs src) = (file_opened fs src = None)"
    by (auto simp add: not_found_def is_directory_def cannot_open_def file_opened_def
        split: sum.splits)
  have "fst (cat fs dst src w) =
     (if not_found fs src then Some (Errorf (Clean src @ '': No such file or directory''))
      else if is_directory fs src then Some (Errorf (basename (Clean src) @ '': Is a directory''))
      else if cannot_open fs src then Some (Errorf (''cannot open '' @ path_opened fs src))
      else case file_opened fs src of
             None \<Rightarrow> None
           | Some f \<Rightarrow>
               (case ReadFrom dst of
                  Some readFrom \<Rightarrow> fst (snd (readFrom w f))
                | None \<Rightarrow>
                    (case write_failure (Write dst) w f of
                       Some e \<Rightarrow> Some e
                     | None \<Rightarrow> read_failure (Write dst) w f)))"
  proof (cases "lstat fs (Clean src)")
    case (Inl e)
    then show ?thesis
      by (simp add: cat_Lstat_fails not_found_def)
  next
    case (Inr m)
    show ?thesis
    proof (cases "m AND ModeDir = 0")
      case False
      with Inr show ?thesis
        by (simp add: cat_directory not_found_def is_directory_def)
    next
      case True
      with Inr show ?thesis
        by (cases "openat fs (path_opened fs src)"; cases "ReadFrom dst")
          (simp_all add: cat_opens [where m = m and name = "path_opened fs src"] path_opened_def
            not_found_def is_directory_def cannot_open_def file_opened_def Copy_def
            copyBuffer_error)
    qed
  qed
  with excl write_or_read_failure [of "Write dst" w] show ?thesis
    by blast
qed

text \<open>
  The claim as the specification states it, with four conditions, fails where a read
  fails: for a link to a directory, \<^verbatim>\<open>Open\<close> succeeds and the first \<^verbatim>\<open>Read\<close> returns an
  error. With the \<^verbatim>\<open>completeWriter\<close> of the tests, \<^verbatim>\<open>cat\<close> returns that error, though the
  path is found, is no directory, can be opened, and no write is rejected.
\<close>

theorem cat_four_conditions_counterexample:
  "fst (cat example_fs (writer completeWriter) ''testdata/e.txt'' []) =
     Some (PathError ''read'' ''testdata'' ''is a directory'') \<and>
   \<not> not_found example_fs ''testdata/e.txt'' \<and>
   \<not> is_directory example_fs ''testdata/e.txt'' \<and>
   \<not> cannot_open example_fs ''testdata/e.txt'' \<and>
   file_opened example_fs ''testdata/e.txt'' =
     Some [([], Some (PathError ''read'' ''testdata'' ''is a directory''))] \<and>
   ReadFrom (writer completeWriter) = None \<and>
   write_failure completeWriter []
     [([], Some (PathError ''read'' ''testdata'' ''is a directory''))] = None"
  by (simp add: not_found_def is_directory_def cannot_open_def file_opened_def path_opened_def
      run_example)



text \<open>
  C9. A symbolic link that \<^verbatim>\<open>Readlink\<close> fails to read: \<^verbatim>\<open>cat\<close> goes on to \<^verbatim>\<open>Open\<close> with the
  empty string as the path. When that fails, as opening the empty path does, the error
  is \<^verbatim>\<open>cannot open\<close> followed by a space and the empty string: neither the link nor a
  target is named.
\<close>

theorem cat_unreadable_symlink_opens_empty_path:
  assumes "lstat fs (Clean src) = Inr m" and "m AND ModeDir = 0" and "m AND ModeSymlink \<noteq> 0"
    and "readlink fs (Clean src) = Inl e"
  shows "cat fs dst src w =
           (case Open fs [] of
              Inl err \<Rightarrow> (Some (Errorf (''cannot open '' @ [])), w)
            | Inr f \<Rightarrow> (fst (snd (Copy dst w f)), snd (snd (Copy dst w f))))"
  using assms
  by (simp add: cat_opens [where m = m and name = "[]"] Readlink_def Open_def split: sum.splits)

theorem cat_unreadable_symlink_opens_empty_path_witness:
  "cat example_fs (writer incompleteWriter) ''testdata/f.txt'' [] = (Some (Errorf ''cannot open ''), [])"
proof -
  let ?m = "ModeSymlink OR 0x1FF"
  have 1: "lstat example_fs (Clean ''testdata/f.txt'') = Inr ?m"
    by (simp add: run_example)
  have 2: "?m AND ModeDir = 0" and 3: "?m AND ModeSymlink \<noteq> 0"
    by (simp_all add: run_example)
  have 4: "readlink example_fs (Clean ''testdata/f.txt'') = Inl ''input/output error''"
    by (simp add: run_example)
  have 5: "Open example_fs [] = Inl (PathError ''open'' [] ''no such file or directory'')"
    by (simp add: example_fs_def Open_def)
  from cat_unreadable_symlink_opens_empty_path [OF 1 2 3 4, of "writer incompleteWriter" "[]"] show ?thesis
    by (simp add: 5)
qed

text \<open>
  C10. When \<^verbatim>\<open>cat\<close> fails before the copy, that is with the not-found, the is-a-directory
  or the cannot-open error, the writer is in the state it was in: \<^verbatim>\<open>Write\<close> was not
  called, and no byte was given to it.
\<close>

theorem cat_failure_before_copy_writes_nothing:
  assumes "not_found fs src \<or> is_directory fs src \<or> cannot_open fs src"
  shows "fst (cat fs dst src w) \<in>
           {Some (Errorf (Clean src @ '': No such file or directory'')),
            Some (Errorf (basename (Clean src) @ '': Is a directory'')),
            Some (Errorf (''cannot open '' @ path_opened fs src))} \<and>
         snd (cat fs dst src w) = w \<and>
         snd (cat fs (writer (traced wr)) src (w', log)) = (w', log)"
proof (cases "lstat fs (Clean src)")
  case (Inl e)
  then show ?thesis by (simp add: cat_Lstat_fails)
next
  case (Inr m)
  show ?thesis
  proof (cases "m AND ModeDir = 0")
    case False
    with Inr show ?thesis by (simp add: cat_directory)
  next
    case True
    with Inr assms obtain e where "openat fs (path_opened fs src) = Inl e"
      by (auto simp add: not_found_def is_directory_def cannot_open_def split: sum.splits)
    with Inr True show ?thesis
      by (simp add: cat_opens [where m = m and name = "path_opened fs src"] path_opened_def)
  qed
qed

theorem cat_failure_before_copy_writes_nothing_witness:
  "cannot_open example_fs ''testdata/d.txt'' \<and>
   fst (cat example_fs (writer incompleteWriter) ''testdata/d.txt'' [0x2A]) =
     Some (Errorf ''cannot open testdata/none.txt'') \<and>
   snd (cat example_fs (writer incompleteWriter) ''testdata/d.txt'' [0x2A]) = [0x2A] \<and>
   snd (cat example_fs (writer (traced incompleteWriter)) ''testdata/d.txt'' ([0x2A], [0x2A])) =
     ([0x2A], [0x2A])"
proof -
  have 1: "cannot_open example_fs ''testdata/d.txt''"
    by (simp add: cannot_open_def path_opened_def run_example)
  then have "not_found example_fs ''testdata/d.txt'' \<or> is_directory example_fs ''testdata/d.txt''
      \<or> cannot_open example_fs ''testdata/d.txt''"
    by simp
  from cat_failure_before_copy_writes_nothing [OF this, where dst = "writer incompleteWriter"
      and w = "[0x2A]" and wr = incompleteWriter and w' = "[0x2A]" and log = "[0x2A]"]
  have "snd (cat example_fs (writer incompleteWriter) ''testdata/d.txt'' [0x2A]) = [0x2A]"
    and "snd (cat example_fs (writer (traced incompleteWriter)) ''testdata/d.txt'' ([0x2A], [0x2A])) =
      ([0x2A], [0x2A])"
    by blast+
  moreover have "fst (cat example_fs (writer incompleteWriter) ''testdata/d.txt'' [0x2A]) =
      Some (Errorf ''cannot open testdata/none.txt'')"
    by (simp add: run_example)
  ultimately show ?thesis
    using 1 by blast
qed

end
